theory Spec2Isabelle
  imports Main
begin

section \<open>The CORS static file server \<^verbatim>\<open>serve.py\<close>\<close>

text \<open>
  \<^verbatim>\<open>serve.py\<close> defines \<^verbatim>\<open>CORSHTTPRequestHandler\<close>, a subclass of
  \<^verbatim>\<open>http.server.SimpleHTTPRequestHandler\<close> that overrides \<^verbatim>\<open>end_headers\<close> and adds
  \<^verbatim>\<open>do_OPTIONS\<close>, and a main block that changes the working directory, binds a
  \<^verbatim>\<open>socketserver.TCPServer\<close> and serves forever. Every other method the handler runs is
  inherited. The inherited methods are embedded from the library of CPython 3.11
  (\<^verbatim>\<open>Lib/http/server.py\<close>: the classes \<^verbatim>\<open>BaseHTTPRequestHandler\<close> and
  \<^verbatim>\<open>SimpleHTTPRequestHandler\<close>; \<^verbatim>\<open>Lib/posixpath.py\<close>; \<^verbatim>\<open>Lib/socketserver.py\<close>), since
  the two methods of \<^verbatim>\<open>serve.py\<close> only have a meaning through them: each definition below
  names the method it embeds.
\<close>

subsection \<open>Bytes and small string helpers\<close>

type_synonym bytes = string

definition CRLF :: string where
  "CRLF = [CHR 0x0D, CHR 0x0A]"

text \<open>\<^verbatim>\<open>str.lower\<close> on the Latin-1 range (the request line is decoded as iso-8859-1).\<close>

definition lower_char :: "char \<Rightarrow> char" where
  "lower_char c =
     (let n = of_char c :: nat
      in if (65 \<le> n \<and> n \<le> 90) \<or> (192 \<le> n \<and> n \<le> 222 \<and> n \<noteq> 215)
         then char_of (n + 32) else c)"

definition lower :: "string \<Rightarrow> string" where
  "lower s = map lower_char s"

text \<open>Decimal formatting of a non-negative integer (\<^verbatim>\<open>"%d" % n\<close>, \<^verbatim>\<open>str(n)\<close>).\<close>

definition digit_char :: "nat \<Rightarrow> char" where
  "digit_char d = char_of (48 + d)"

function str_nat :: "nat \<Rightarrow> string" where
  "str_nat n = (if n < 10 then [digit_char n] else str_nat (n div 10) @ [digit_char (n mod 10)])"
  by pat_completeness auto
termination
  by (relation "measure id") auto

declare str_nat.simps [simp del]

text \<open>\<^verbatim>\<open>s.startswith(p)\<close>, \<^verbatim>\<open>s.endswith(p)\<close>.\<close>

definition startswith :: "string \<Rightarrow> string \<Rightarrow> bool" where
  "startswith s p = (take (length p) s = p)"

definition endswith :: "string \<Rightarrow> string \<Rightarrow> bool" where
  "endswith s p = (length p \<le> length s \<and> drop (length s - length p) s = p)"

text \<open>\<^verbatim>\<open>s.split(c)\<close> for a one-character separator: never empty, keeps empty pieces.\<close>

fun split_on :: "char \<Rightarrow> string \<Rightarrow> string list" where
  "split_on c [] = [[]]"
| "split_on c (x # xs) =
     (if x = c then [] # split_on c xs
      else (case split_on c xs of [] \<Rightarrow> [[x]] | w # ws \<Rightarrow> (x # w) # ws))"

text \<open>\<^verbatim>\<open>sep.join(ws)\<close>.\<close>

fun join_sep :: "string \<Rightarrow> string list \<Rightarrow> string" where
  "join_sep sep [] = []"
| "join_sep sep [w] = w"
| "join_sep sep (w # v # ws) = w @ sep @ join_sep sep (v # ws)"

text \<open>
  \<^verbatim>\<open>str.isspace\<close> on the Latin-1 range, and \<^verbatim>\<open>s.split()\<close>: the maximal runs of
  characters that are not whitespace.
\<close>

definition is_space :: "char \<Rightarrow> bool" where
  "is_space c =
     (let n = of_char c :: nat
      in (9 \<le> n \<and> n \<le> 13) \<or> (28 \<le> n \<and> n \<le> 32) \<or> n = 133 \<or> n = 160)"

fun split_ws_acc :: "string \<Rightarrow> string \<Rightarrow> string list" where
  "split_ws_acc w [] = (if w = [] then [] else [w])"
| "split_ws_acc w (x # xs) =
     (if is_space x then (if w = [] then split_ws_acc [] xs else w # split_ws_acc [] xs)
      else split_ws_acc (w @ [x]) xs)"

definition split_ws :: "string \<Rightarrow> string list" where
  "split_ws s = split_ws_acc [] s"

text \<open>\<^verbatim>\<open>s.rstrip(chars)\<close> and \<^verbatim>\<open>s.rstrip()\<close>.\<close>

definition rstrip_chars :: "string \<Rightarrow> string \<Rightarrow> string" where
  "rstrip_chars cs s = rev (dropWhile (\<lambda>c. c \<in> set cs) (rev s))"

definition rstrip_ws :: "string \<Rightarrow> string" where
  "rstrip_ws s = rev (dropWhile is_space (rev s))"

text \<open>Comparison of two strings by code point, as Python's \<^verbatim>\<open>a >= b\<close> on \<^verbatim>\<open>str\<close>.\<close>

fun str_ge :: "string \<Rightarrow> string \<Rightarrow> bool" where
  "str_ge _ [] = True"
| "str_ge [] (y # ys) = False"
| "str_ge (x # xs) (y # ys) =
     ((of_char y :: nat) < of_char x \<or> (x = y \<and> str_ge xs ys))"

subsection \<open>What the platform supplies\<close>

text \<open>
  Values and pure functions of the Python library that the handler calls and whose result
  it only copies into the response: the table \<^verbatim>\<open>responses\<close> built from \<^verbatim>\<open>http.HTTPStatus\<close>,
  the interpreter's \<^verbatim>\<open>sys_version\<close>, \<^verbatim>\<open>date_time_string(timestamp)\<close> (with
  \<^verbatim>\<open>None\<close> it reads the clock), \<^verbatim>\<open>repr\<close> of a string (the \<^verbatim>\<open>%r\<close> of the error messages),
  the error page (\<^verbatim>\<open>error_message_format\<close> filled in with \<^verbatim>\<open>html.escape\<close> and encoded),
  the percent-decoding of \<^verbatim>\<open>urllib.parse.unquote\<close>, \<^verbatim>\<open>urlsplit(p).path\<close>, the redirect URL
  \<^verbatim>\<open>urlunsplit\<close> builds, \<^verbatim>\<open>guess_type\<close>, the file-system encoding, the HTML of a directory
  listing, and the comparison of an \<^verbatim>\<open>If-Modified-Since\<close> date with a modification time.
  They are parameters: every theorem below holds whatever they return.
\<close>

record platform =
  responses :: "nat \<Rightarrow> (string \<times> string) option"
  sys_version :: string
  date_time_string :: "nat option \<Rightarrow> string"
  py_repr :: "string \<Rightarrow> string"
  error_page :: "nat \<Rightarrow> string \<Rightarrow> string \<Rightarrow> bytes"
  unquote_escapes :: "string \<Rightarrow> string"
  urlsplit_path :: "string \<Rightarrow> string"
  redirect_url :: "string \<Rightarrow> string"
  guess_type :: "string \<Rightarrow> string"
  fs_encoding :: string
  listing :: "string \<Rightarrow> string \<Rightarrow> (string \<times> bool \<times> bool) list \<Rightarrow> bytes"
  not_modified_since :: "string \<Rightarrow> nat \<Rightarrow> bool"

text \<open>
  The file system as the handler queries it: \<^verbatim>\<open>os.path.isdir\<close>, \<^verbatim>\<open>os.path.isfile\<close>,
  \<^verbatim>\<open>open(path, 'rb')\<close> with \<^verbatim>\<open>os.fstat\<close> (the file's bytes and its \<^verbatim>\<open>st_mtime\<close>;
  \<^verbatim>\<open>None\<close> is \<^verbatim>\<open>OSError\<close>; \<^verbatim>\<open>st_size\<close> is the number of bytes) and \<^verbatim>\<open>os.listdir\<close>
  (\<^verbatim>\<open>None\<close> is \<^verbatim>\<open>OSError\<close>), which gives each name together with what
  \<^verbatim>\<open>list_directory\<close> asks about the entry: \<^verbatim>\<open>os.path.isdir\<close> and \<^verbatim>\<open>os.path.islink\<close>.
  Paths are strings: a symbolic link is followed by the operating system, not by the handler.
\<close>

record filesystem =
  isdir :: "string \<Rightarrow> bool"
  isfile :: "string \<Rightarrow> bool"
  open_rb :: "string \<Rightarrow> (bytes \<times> nat) option"
  listdir :: "string \<Rightarrow> (string \<times> bool \<times> bool) list option"

subsection \<open>The handler object\<close>

text \<open>
  The attributes of a handler instance that the methods read and write. \<^verbatim>\<open>_headers_buffer\<close>
  does not exist until the first header is buffered (\<^verbatim>\<open>hasattr\<close> is false): \<open>None\<close>.
  \<^verbatim>\<open>wfile\<close> is unbuffered (\<^verbatim>\<open>wbufsize = 0\<close>): the field holds every byte written to
  the client so far, in order. Log lines go to \<^verbatim>\<open>sys.stderr\<close> and are left out.
\<close>

datatype error = AttributeError | TypeError

record handler =
  directory :: string
  command :: "string option"
  path :: string
  request_version :: string
  requestline :: string
  headers :: "(string \<times> string) list"
  close_connection :: bool
  headers_buffer :: "bytes list option"
  wfile :: bytes

definition protocol_version :: string where
  "protocol_version = ''HTTP/1.0''"

definition server_version :: string where
  "server_version = ''SimpleHTTP/0.6''"

definition error_content_type :: string where
  "error_content_type = ''text/html;charset=utf-8''"

definition version_string :: "platform \<Rightarrow> string" where
  "version_string P = server_version @ '' '' @ sys_version P"

subsection \<open>Inherited: buffering and flushing headers (\<^verbatim>\<open>BaseHTTPRequestHandler\<close>)\<close>

definition buffer_append :: "handler \<Rightarrow> bytes \<Rightarrow> handler" where
  "buffer_append h line =
     h\<lparr>headers_buffer :=
         Some ((case headers_buffer h of None \<Rightarrow> [] | Some b \<Rightarrow> b) @ [line])\<rparr>"

definition send_response_only :: "platform \<Rightarrow> handler \<Rightarrow> nat \<Rightarrow> string option \<Rightarrow> handler" where
  "send_response_only P h code message =
     (if request_version h \<noteq> ''HTTP/0.9'' then
        let message = (case message of
                         None \<Rightarrow> (case responses P code of Some r \<Rightarrow> fst r | None \<Rightarrow> [])
                       | Some m \<Rightarrow> m)
        in buffer_append h (protocol_version @ '' '' @ str_nat code @ '' '' @ message @ CRLF)
      else h)"

definition send_header :: "handler \<Rightarrow> string \<Rightarrow> string \<Rightarrow> handler" where
  "send_header h keyword v =
     (let h1 = (if request_version h \<noteq> ''HTTP/0.9''
                then buffer_append h (keyword @ '': '' @ v @ CRLF) else h)
      in if lower keyword = ''connection'' then
           (if lower v = ''close'' then h1\<lparr>close_connection := True\<rparr>
            else if lower v = ''keep-alive'' then h1\<lparr>close_connection := False\<rparr>
            else h1)
         else h1)"

definition flush_headers :: "handler \<Rightarrow> handler" where
  "flush_headers h =
     (case headers_buffer h of
        None \<Rightarrow> h
      | Some b \<Rightarrow> h\<lparr>wfile := wfile h @ concat b, headers_buffer := Some []\<rparr>)"

text \<open>
  The base class's \<^verbatim>\<open>end_headers\<close>. \<^verbatim>\<open>self._headers_buffer.append\<close> raises
  \<^verbatim>\<open>AttributeError\<close> when nothing was buffered before.
\<close>

definition base_end_headers :: "handler \<Rightarrow> error + handler" where
  "base_end_headers h =
     (if request_version h \<noteq> ''HTTP/0.9'' then
        (case headers_buffer h of
           None \<Rightarrow> Inl AttributeError
         | Some b \<Rightarrow> Inr (flush_headers (h\<lparr>headers_buffer := Some (b @ [CRLF])\<rparr>)))
      else Inr h)"

definition send_response :: "platform \<Rightarrow> handler \<Rightarrow> nat \<Rightarrow> string option \<Rightarrow> handler" where
  "send_response P h code message =
     send_header
       (send_header (send_response_only P h code message) ''Server'' (version_string P))
       ''Date'' (date_time_string P None)"

subsection \<open>\<^verbatim>\<open>CORSHTTPRequestHandler\<close>: the two methods of \<^verbatim>\<open>serve.py\<close>\<close>

definition end_headers :: "handler \<Rightarrow> error + handler" where
  "end_headers h =
     base_end_headers
       (send_header
          (send_header
             (send_header h ''Access-Control-Allow-Origin'' ''*'')
             ''Access-Control-Allow-Methods'' ''GET, POST, OPTIONS'')
          ''Access-Control-Allow-Headers'' ''Content-Type'')"

definition do_OPTIONS :: "platform \<Rightarrow> handler \<Rightarrow> error + handler" where
  "do_OPTIONS P h = end_headers (send_response P h 200 None)"

subsection \<open>Inherited: error replies (\<^verbatim>\<open>BaseHTTPRequestHandler.send_error\<close>)\<close>

text \<open>
  \<^verbatim>\<open>send_error\<close> calls \<^verbatim>\<open>self.end_headers()\<close>: on a \<^verbatim>\<open>CORSHTTPRequestHandler\<close> that is
  the override of \<^verbatim>\<open>serve.py\<close>. The same holds for every inherited method below.
\<close>

definition send_error ::
  "platform \<Rightarrow> handler \<Rightarrow> nat \<Rightarrow> string option \<Rightarrow> string option \<Rightarrow> error + handler" where
  "send_error P h code message explain =
     (let (shortmsg, longmsg) =
            (case responses P code of Some r \<Rightarrow> r | None \<Rightarrow> (''???'', ''???''));
          message = (case message of None \<Rightarrow> shortmsg | Some m \<Rightarrow> m);
          explain = (case explain of None \<Rightarrow> longmsg | Some e \<Rightarrow> e);
          h1 = send_response P h code (Some message);
          h2 = send_header h1 ''Connection'' ''close'';
          body = (if 200 \<le> code \<and> code \<noteq> 204 \<and> code \<noteq> 205 \<and> code \<noteq> 304
                  then Some (error_page P code message explain) else None);
          h3 = (case body of
                  None \<Rightarrow> h2
                | Some b \<Rightarrow>
                    send_header (send_header h2 ''Content-Type'' error_content_type)
                      ''Content-Length'' (str_nat (length b)))
      in case end_headers h3 of
           Inl e \<Rightarrow> Inl e
         | Inr h4 \<Rightarrow>
             Inr (case body of
                    None \<Rightarrow> h4
                  | Some b \<Rightarrow>
                      if command h4 \<noteq> Some ''HEAD'' \<and> b \<noteq> []
                      then h4\<lparr>wfile := wfile h4 @ b\<rparr> else h4))"

subsection \<open>Inherited: from the request path to a local path\<close>

text \<open>\<^verbatim>\<open>posixpath.join(a, b)\<close>, \<^verbatim>\<open>posixpath.dirname\<close> and \<^verbatim>\<open>posixpath.normpath\<close>.\<close>

definition path_join :: "string \<Rightarrow> string \<Rightarrow> string" where
  "path_join a b =
     (if startswith b ''/'' then b
      else if a = [] \<or> endswith a ''/'' then a @ b
      else a @ ''/'' @ b)"

definition dirname :: "string \<Rightarrow> string" where
  "dirname p =
     (let i = length p - length (takeWhile (\<lambda>c. c \<noteq> CHR ''/'') (rev p));
          head = take i p
      in if head \<noteq> [] \<and> head \<noteq> replicate (length head) (CHR ''/'')
         then rstrip_chars ''/'' head else head)"

definition normpath_step :: "nat \<Rightarrow> string list \<Rightarrow> string \<Rightarrow> string list" where
  "normpath_step initial_slashes new_comps part =
     (if part = [] \<or> part = ''.'' then new_comps
      else if part \<noteq> ''..'' \<or> (initial_slashes = 0 \<and> new_comps = [])
              \<or> (new_comps \<noteq> [] \<and> last new_comps = ''..'')
      then new_comps @ [part]
      else if new_comps \<noteq> [] then butlast new_comps
      else new_comps)"

definition normpath :: "string \<Rightarrow> string" where
  "normpath p =
     (if p = [] then ''.''
      else
        let initial_slashes =
              (if startswith p ''/''
               then (if startswith p ''//'' \<and> \<not> startswith p ''///'' then 2 else 1)
               else (0::nat));
            comps = foldl (normpath_step initial_slashes) [] (split_on (CHR ''/'') p);
            q = replicate initial_slashes (CHR ''/'') @ join_sep ''/'' comps
        in if q = [] then ''.'' else q)"

text \<open>
  \<^verbatim>\<open>urllib.parse.unquote\<close>: a string without \<^verbatim>\<open>%\<close> is returned as it is; the decoding of
  the escapes is the platform's.
\<close>

definition unquote :: "platform \<Rightarrow> string \<Rightarrow> string" where
  "unquote P s = (if CHR ''%'' \<notin> set s then s else unquote_escapes P s)"

text \<open>\<^verbatim>\<open>SimpleHTTPRequestHandler.translate_path\<close>, with \<^verbatim>\<open>self.directory\<close> as \<open>dir\<close>.\<close>

definition translate_word :: "string \<Rightarrow> string \<Rightarrow> string" where
  "translate_word p word =
     (if dirname word \<noteq> [] \<or> word = ''.'' \<or> word = ''..'' then p else path_join p word)"

definition translate_path :: "platform \<Rightarrow> string \<Rightarrow> string \<Rightarrow> string" where
  "translate_path P dir p =
     (let p1 = takeWhile (\<lambda>c. c \<noteq> CHR ''?'') p;
          p2 = takeWhile (\<lambda>c. c \<noteq> CHR ''#'') p1;
          trailing_slash = endswith (rstrip_ws p2) ''/'';
          p3 = normpath (unquote P p2);
          words = filter (\<lambda>w. w \<noteq> []) (split_on (CHR ''/'') p3);
          res = foldl translate_word dir words
      in if trailing_slash then res @ ''/'' else res)"

subsection \<open>Inherited: serving files (\<^verbatim>\<open>SimpleHTTPRequestHandler\<close>)\<close>

text \<open>
  The request headers are a list of name and value; \<^verbatim>\<open>name in self.headers\<close> and
  \<^verbatim>\<open>self.headers.get(name, default)\<close> match names without regard to case and take the
  first match.
\<close>

definition header_find :: "(string \<times> string) list \<Rightarrow> string \<Rightarrow> string option" where
  "header_find hs name = map_option snd (find (\<lambda>kv. lower (fst kv) = lower name) hs)"

definition header_get :: "(string \<times> string) list \<Rightarrow> string \<Rightarrow> string \<Rightarrow> string" where
  "header_get hs name dflt = (case header_find hs name of None \<Rightarrow> dflt | Some v \<Rightarrow> v)"

text \<open>A method that sends the head returns the handler and the file object or \<^verbatim>\<open>None\<close>.\<close>

definition no_file :: "error + handler \<Rightarrow> error + (handler \<times> bytes option)" where
  "no_file r = (case r of Inl e \<Rightarrow> Inl e | Inr h \<Rightarrow> Inr (h, None))"

definition with_file :: "bytes \<Rightarrow> error + handler \<Rightarrow> error + (handler \<times> bytes option)" where
  "with_file f r = (case r of Inl e \<Rightarrow> Inl e | Inr h \<Rightarrow> Inr (h, Some f))"

definition list_directory ::
  "platform \<Rightarrow> filesystem \<Rightarrow> handler \<Rightarrow> string \<Rightarrow> error + (handler \<times> bytes option)" where
  "list_directory P F h p =
     (case listdir F p of
        None \<Rightarrow> no_file (send_error P h 404 (Some ''No permission to list directory'') None)
      | Some entries \<Rightarrow>
          let encoded = listing P p (path h) entries;
              h1 = send_response P h 200 None;
              h2 = send_header h1 ''Content-type'' (''text/html; charset='' @ fs_encoding P);
              h3 = send_header h2 ''Content-Length'' (str_nat (length encoded))
          in with_file encoded (end_headers h3))"

text \<open>The part of \<^verbatim>\<open>send_head\<close> after the directory branch, on the local path \<open>p\<close>.\<close>

definition send_file_head ::
  "platform \<Rightarrow> filesystem \<Rightarrow> handler \<Rightarrow> string \<Rightarrow> error + (handler \<times> bytes option)" where
  "send_file_head P F h p =
     (let ctype = guess_type P p
      in if endswith p ''/'' then no_file (send_error P h 404 (Some ''File not found'') None)
         else
           (case open_rb F p of
              None \<Rightarrow> no_file (send_error P h 404 (Some ''File not found'') None)
            | Some (content, mtime) \<Rightarrow>
                if header_find (headers h) ''If-Modified-Since'' \<noteq> None
                   \<and> header_find (headers h) ''If-None-Match'' = None
                   \<and> not_modified_since P
                        (header_get (headers h) ''If-Modified-Since'' []) mtime
                then no_file (end_headers (send_response P h 304 None))
                else
                  let h1 = send_response P h 200 None;
                      h2 = send_header h1 ''Content-type'' ctype;
                      h3 = send_header h2 ''Content-Length'' (str_nat (length content));
                      h4 = send_header h3 ''Last-Modified'' (date_time_string P (Some mtime))
                  in with_file content (end_headers h4)))"

definition send_head ::
  "platform \<Rightarrow> filesystem \<Rightarrow> handler \<Rightarrow> error + (handler \<times> bytes option)" where
  "send_head P F h =
     (let p = translate_path P (directory h) (path h)
      in if isdir F p then
           (if \<not> endswith (urlsplit_path P (path h)) ''/'' then
              let h1 = send_response P h 301 None;
                  h2 = send_header h1 ''Location'' (redirect_url P (path h));
                  h3 = send_header h2 ''Content-Length'' ''0''
              in no_file (end_headers h3)
            else if isfile F (path_join p ''index.html'')
              then send_file_head P F h (path_join p ''index.html'')
            else if isfile F (path_join p ''index.htm'')
              then send_file_head P F h (path_join p ''index.htm'')
            else list_directory P F h p)
         else send_file_head P F h p)"

definition do_GET :: "platform \<Rightarrow> filesystem \<Rightarrow> handler \<Rightarrow> error + handler" where
  "do_GET P F h =
     (case send_head P F h of
        Inl e \<Rightarrow> Inl e
      | Inr (h1, None) \<Rightarrow> Inr h1
      | Inr (h1, Some f) \<Rightarrow> Inr (h1\<lparr>wfile := wfile h1 @ f\<rparr>))"

definition do_HEAD :: "platform \<Rightarrow> filesystem \<Rightarrow> handler \<Rightarrow> error + handler" where
  "do_HEAD P F h =
     (case send_head P F h of
        Inl e \<Rightarrow> Inl e
      | Inr (h1, _) \<Rightarrow> Inr h1)"

subsection \<open>Inherited: reading and dispatching a request\<close>

text \<open>
  What the handler reads for one request: the first line as \<^verbatim>\<open>rfile.readline(65537)\<close>
  returns it (empty at end of input), and what \<^verbatim>\<open>http.client.parse_headers\<close> makes of the
  lines after it: the headers, or one of its two exceptions with its text.
\<close>

datatype header_section =
    Headers "(string \<times> string) list"
  | LineTooLong string
  | TooManyHeaders string

record request =
  raw_requestline :: bytes
  header_lines :: header_section

definition default_request_version :: string where
  "default_request_version = ''HTTP/0.9''"

text \<open>
  The version check of \<^verbatim>\<open>parse_request\<close>: \<^verbatim>\<open>None\<close> where the source raises
  \<^verbatim>\<open>ValueError\<close>. \<^verbatim>\<open>str.isdigit\<close> also accepts the superscripts of Latin-1, on which
  \<^verbatim>\<open>int\<close> then raises \<^verbatim>\<open>ValueError\<close> as well.
\<close>

definition py_isdigit :: "char \<Rightarrow> bool" where
  "py_isdigit c =
     (let n = of_char c :: nat in (48 \<le> n \<and> n \<le> 57) \<or> n = 178 \<or> n = 179 \<or> n = 185)"

definition ascii_digit :: "char \<Rightarrow> bool" where
  "ascii_digit c = (let n = of_char c :: nat in 48 \<le> n \<and> n \<le> 57)"

definition py_int :: "string \<Rightarrow> nat option" where
  "py_int s =
     (if s \<noteq> [] \<and> list_all ascii_digit s
      then Some (foldl (\<lambda>acc c. 10 * acc + (of_char c - 48)) 0 s) else None)"

definition version_number :: "string \<Rightarrow> (nat \<times> nat) option" where
  "version_number version =
     (if \<not> startswith version ''HTTP/'' then None
      else
        (case split_on (CHR ''.'') (drop 5 version) of
           [a, b] \<Rightarrow>
             if \<not> (a \<noteq> [] \<and> list_all py_isdigit a) \<or> \<not> (b \<noteq> [] \<and> list_all py_isdigit b)
               then None
             else if 10 < length a \<or> 10 < length b then None
             else (case (py_int a, py_int b) of
                     (Some m, Some n) \<Rightarrow> Some (m, n)
                   | _ \<Rightarrow> None)
         | _ \<Rightarrow> None))"

text \<open>Comparison of pairs of numbers as Python compares tuples.\<close>

definition tuple_ge :: "nat \<times> nat \<Rightarrow> nat \<times> nat \<Rightarrow> bool" where
  "tuple_ge a b = (fst b < fst a \<or> (fst a = fst b \<and> snd b \<le> snd a))"

definition failed :: "error + handler \<Rightarrow> error + (handler \<times> bool)" where
  "failed r = (case r of Inl e \<Rightarrow> Inl e | Inr h \<Rightarrow> Inr (h, False))"

definition handle_expect_100 :: "platform \<Rightarrow> handler \<Rightarrow> error + (handler \<times> bool)" where
  "handle_expect_100 P h =
     (case end_headers (send_response_only P h 100 None) of
        Inl e \<Rightarrow> Inl e
      | Inr h1 \<Rightarrow> Inr (h1, True))"

text \<open>\<^verbatim>\<open>parse_request\<close> from the header section on: \<^verbatim>\<open>Connection\<close> and \<^verbatim>\<open>Expect\<close>.\<close>

definition parse_request_headers ::
  "platform \<Rightarrow> handler \<Rightarrow> header_section \<Rightarrow> error + (handler \<times> bool)" where
  "parse_request_headers P h hl =
     (case hl of
        LineTooLong err \<Rightarrow> failed (send_error P h 431 (Some ''Line too long'') (Some err))
      | TooManyHeaders err \<Rightarrow> failed (send_error P h 431 (Some ''Too many headers'') (Some err))
      | Headers hs \<Rightarrow>
          let h1 = h\<lparr>headers := hs\<rparr>;
              conntype = header_get hs ''Connection'' [];
              h2 = (if lower conntype = ''close'' then h1\<lparr>close_connection := True\<rparr>
                    else if lower conntype = ''keep-alive'' \<and> str_ge protocol_version ''HTTP/1.1''
                    then h1\<lparr>close_connection := False\<rparr>
                    else h1);
              expect = header_get hs ''Expect'' []
          in if lower expect = ''100-continue'' \<and> str_ge protocol_version ''HTTP/1.1''
                \<and> str_ge (request_version h2) ''HTTP/1.1''
             then handle_expect_100 P h2
             else Inr (h2, True))"

text \<open>
  The path of the request line: \<^verbatim>\<open>'/' + path.lstrip('/')\<close> when it starts with \<^verbatim>\<open>//\<close>.
\<close>

definition single_leading_slash :: "string \<Rightarrow> string" where
  "single_leading_slash p =
     (if startswith p ''//'' then ''/'' @ dropWhile (\<lambda>c. c = CHR ''/'') p else p)"

text \<open>\<^verbatim>\<open>parse_request\<close> from the word count on, with the version already checked.\<close>

definition parse_request_words ::
  "platform \<Rightarrow> handler \<Rightarrow> string list \<Rightarrow> header_section \<Rightarrow> error + (handler \<times> bool)" where
  "parse_request_words P h ws hl =
     (if \<not> (2 \<le> length ws \<and> length ws \<le> 3) then
        failed (send_error P h 400
          (Some (''Bad request syntax ('' @ py_repr P (requestline h) @ '')'')) None)
      else
        let cmd = ws ! 0; p = ws ! 1;
            h1 = (if length ws = 2 then h\<lparr>close_connection := True\<rparr> else h)
        in if length ws = 2 \<and> cmd \<noteq> ''GET'' then
             failed (send_error P h1 400
               (Some (''Bad HTTP/0.9 request type ('' @ py_repr P cmd @ '')'')) None)
           else
             parse_request_headers P
               (h1\<lparr>command := Some cmd, path := single_leading_slash p\<rparr>) hl)"

definition parse_request :: "platform \<Rightarrow> handler \<Rightarrow> request \<Rightarrow> error + (handler \<times> bool)" where
  "parse_request P h req =
     (let line = rstrip_chars [CHR 0x0D, CHR 0x0A] (raw_requestline req);
          h1 = h\<lparr>command := None, request_version := default_request_version,
                 close_connection := True, requestline := line\<rparr>;
          ws = split_ws line
      in if ws = [] then Inr (h1, False)
         else if 3 \<le> length ws then
           (let version = last ws
            in case version_number version of
                 None \<Rightarrow>
                   failed (send_error P h1 400
                     (Some (''Bad request version ('' @ py_repr P version @ '')'')) None)
               | Some vn \<Rightarrow>
                   let h2 = (if tuple_ge vn (1, 1) \<and> str_ge protocol_version ''HTTP/1.1''
                             then h1\<lparr>close_connection := False\<rparr> else h1)
                   in if tuple_ge vn (2, 0) then
                        failed (send_error P h2 505
                          (Some (''Invalid HTTP version ('' @ drop 5 version @ '')'')) None)
                      else parse_request_words P (h2\<lparr>request_version := version\<rparr>) ws
                             (header_lines req))
         else parse_request_words P h1 ws (header_lines req))"

text \<open>
  \<^verbatim>\<open>handle_one_request\<close>. \<^verbatim>\<open>hasattr(self, 'do_' + command)\<close> holds for the three
  \<^verbatim>\<open>do_*\<close> methods of the class: \<^verbatim>\<open>do_GET\<close> and \<^verbatim>\<open>do_HEAD\<close>, inherited, and
  \<^verbatim>\<open>do_OPTIONS\<close> of \<^verbatim>\<open>serve.py\<close>. \<^verbatim>\<open>'do_' + self.command\<close> raises \<^verbatim>\<open>TypeError\<close> on
  \<^verbatim>\<open>None\<close>.
\<close>

definition handle_one_request ::
  "platform \<Rightarrow> filesystem \<Rightarrow> handler \<Rightarrow> request \<Rightarrow> error + handler" where
  "handle_one_request P F h req =
     (if 65536 < length (raw_requestline req) then
        send_error P (h\<lparr>requestline := [], request_version := [], command := Some []\<rparr>)
          414 None None
      else if raw_requestline req = [] then Inr (h\<lparr>close_connection := True\<rparr>)
      else
        (case parse_request P h req of
           Inl e \<Rightarrow> Inl e
         | Inr (h1, ok) \<Rightarrow>
             if \<not> ok then Inr h1
             else
               (case command h1 of
                  None \<Rightarrow> Inl TypeError
                | Some cmd \<Rightarrow>
                    if cmd = ''GET'' then do_GET P F h1
                    else if cmd = ''HEAD'' then do_HEAD P F h1
                    else if cmd = ''OPTIONS'' then do_OPTIONS P h1
                    else send_error P h1 501
                           (Some (''Unsupported method ('' @ py_repr P cmd @ '')'')) None)))"

text \<open>
  \<^verbatim>\<open>handle\<close>: one request, then more while \<^verbatim>\<open>close_connection\<close> is false. The requests
  that the client sends on the connection are a list; after the last one \<^verbatim>\<open>readline\<close>
  returns the empty string.
\<close>

definition end_of_input :: request where
  "end_of_input = \<lparr>raw_requestline = [], header_lines = Headers []\<rparr>"

fun handle_requests ::
  "platform \<Rightarrow> filesystem \<Rightarrow> handler \<Rightarrow> request list \<Rightarrow> error + handler" where
  "handle_requests P F h [] = handle_one_request P F h end_of_input"
| "handle_requests P F h (r # rs) =
     (case handle_one_request P F h r of
        Inl e \<Rightarrow> Inl e
      | Inr h1 \<Rightarrow> if close_connection h1 then Inr h1 else handle_requests P F h1 rs)"

definition handle ::
  "platform \<Rightarrow> filesystem \<Rightarrow> handler \<Rightarrow> request list \<Rightarrow> error + handler" where
  "handle P F h rs = handle_requests P F (h\<lparr>close_connection := True\<rparr>) rs"

subsection \<open>The main block of \<^verbatim>\<open>serve.py\<close>\<close>

text \<open>
  The process: what it can read (command line, environment), its working directory, what
  it has printed, its listening socket, and the sequence of its effects. \<open>can_bind\<close> is the
  operating system's answer to binding an address; \<^verbatim>\<open>TCPServer(...)\<close> raises
  \<^verbatim>\<open>OSError\<close> when it is refused. \<^verbatim>\<open>os.chdir\<close> to the directory of the running script is
  taken to succeed.
\<close>

datatype event =
    Chdir string
  | Bind string nat
  | Print string
  | Served bytes
  | Crashed error

record process =
  argv :: "string list"
  environ :: "(string \<times> string) list"
  can_bind :: "string \<times> nat \<Rightarrow> bool"
  cwd :: string
  stdout :: string
  listener :: "(string \<times> nat) option"
  events :: "event list"

datatype os_error = OSError

definition PORT :: nat where
  "PORT = 8000"

definition os_chdir :: "string \<Rightarrow> process \<Rightarrow> process" where
  "os_chdir d p = p\<lparr>cwd := d, events := events p @ [Chdir d]\<rparr>"

definition TCPServer :: "string \<times> nat \<Rightarrow> process \<Rightarrow> os_error + process" where
  "TCPServer addr p =
     (if can_bind p addr
      then Inr (p\<lparr>listener := Some addr, events := events p @ [Bind (fst addr) (snd addr)]\<rparr>)
      else Inl OSError)"

definition print :: "string \<Rightarrow> process \<Rightarrow> process" where
  "print s p = p\<lparr>stdout := stdout p @ s @ [CHR 0x0A], events := events p @ [Print s]\<rparr>"

text \<open>
  A connection: the requests the client sends on it, and the platform and file system as
  they are while it is served. \<^verbatim>\<open>finish_request\<close> makes a new handler object for it, whose
  \<^verbatim>\<open>directory\<close> is \<^verbatim>\<open>os.getcwd()\<close>; an exception that leaves the handler is caught by
  the server.
\<close>

record connection =
  conn_platform :: platform
  conn_files :: filesystem
  conn_requests :: "request list"

definition new_handler :: "string \<Rightarrow> handler" where
  "new_handler d =
     \<lparr>directory = d, command = None, path = [], request_version = [], requestline = [],
      headers = [], close_connection = True, headers_buffer = None, wfile = []\<rparr>"

definition run_handler :: "string \<Rightarrow> connection \<Rightarrow> error + handler" where
  "run_handler d c = handle (conn_platform c) (conn_files c) (new_handler d) (conn_requests c)"

definition finish_request :: "process \<Rightarrow> connection \<Rightarrow> process" where
  "finish_request p c =
     (case run_handler (cwd p) c of
        Inl e \<Rightarrow> p\<lparr>events := events p @ [Crashed e]\<rparr>
      | Inr h \<Rightarrow> p\<lparr>events := events p @ [Served (wfile h)]\<rparr>)"

text \<open>\<^verbatim>\<open>serve_forever\<close>, on the connections accepted so far.\<close>

definition serve_forever :: "process \<Rightarrow> connection list \<Rightarrow> process" where
  "serve_forever p cs = foldl finish_request p cs"

text \<open>
  The main block; \<open>script\<close> is \<^verbatim>\<open>os.path.abspath(__file__)\<close>.
\<close>

definition main :: "string \<Rightarrow> process \<Rightarrow> connection list \<Rightarrow> os_error + process" where
  "main script p cs =
     (let p1 = os_chdir (dirname script) p
      in case TCPServer ([], PORT) p1 of
           Inl e \<Rightarrow> Inl e
         | Inr p2 \<Rightarrow>
             let p3 = print (''Server running at http://localhost:'' @ str_nat PORT @ ''/'') p2;
                 p4 = print (''Test the modular page at: http://localhost:'' @ str_nat PORT
                         @ ''/node-guides/procurement-provisioning/index-modular.html'') p3
             in Inr (serve_forever p4 cs))"

subsection \<open>Vocabulary of the properties\<close>

text \<open>
  The three header lines that \<^verbatim>\<open>end_headers\<close> of \<^verbatim>\<open>serve.py\<close> sends, a header line and a
  status line as the base class formats them, and the lines waiting in the buffer.
\<close>

definition header_line :: "string \<Rightarrow> string \<Rightarrow> bytes" where
  "header_line k v = k @ '': '' @ v @ CRLF"

definition status_line :: "nat \<Rightarrow> string \<Rightarrow> bytes" where
  "status_line code message = protocol_version @ '' '' @ str_nat code @ '' '' @ message @ CRLF"

definition cors_headers :: "(string \<times> string) list" where
  "cors_headers =
     [(''Access-Control-Allow-Origin'', ''*''),
      (''Access-Control-Allow-Methods'', ''GET, POST, OPTIONS''),
      (''Access-Control-Allow-Headers'', ''Content-Type'')]"

definition cors_lines :: "bytes list" where
  "cors_lines = map (\<lambda>kv. header_line (fst kv) (snd kv)) cors_headers"

definition buffered :: "handler \<Rightarrow> bytes list" where
  "buffered h = (case headers_buffer h of None \<Rightarrow> [] | Some b \<Rightarrow> b)"

definition phrase :: "platform \<Rightarrow> nat \<Rightarrow> string" where
  "phrase P code = (case responses P code of Some r \<Rightarrow> fst r | None \<Rightarrow> [])"

text \<open>
  The handler after a response whose head the base class built from the lines \<open>ls\<close> and
  whose body is \<open>body\<close>: unless the request version is \<^verbatim>\<open>HTTP/0.9\<close>, the buffered lines,
  \<open>ls\<close>, the three lines of \<^verbatim>\<open>serve.py\<close> and the blank line are written before the body.
\<close>

definition respond :: "handler \<Rightarrow> bytes list \<Rightarrow> bytes \<Rightarrow> handler" where
  "respond h ls body =
     (if request_version h \<noteq> ''HTTP/0.9''
      then h\<lparr>headers_buffer := Some [],
             wfile := wfile h @ concat (buffered h @ ls @ cors_lines @ [CRLF]) @ body\<rparr>
      else h\<lparr>wfile := wfile h @ body\<rparr>)"

text \<open>The handler after the base class buffered the lines \<open>ls\<close>.\<close>

definition buffer_lines :: "handler \<Rightarrow> bytes list \<Rightarrow> handler" where
  "buffer_lines h ls =
     (if request_version h \<noteq> ''HTTP/0.9''
      then h\<lparr>headers_buffer := Some (buffered h @ ls)\<rparr> else h)"

definition standard_lines :: "platform \<Rightarrow> nat \<Rightarrow> string \<Rightarrow> bytes list" where
  "standard_lines P code message =
     [status_line code message,
      header_line ''Server'' (version_string P),
      header_line ''Date'' (date_time_string P None)]"

text \<open>
  The handler \<open>h'\<close> is \<open>h\<close> after a response that starts with a status line and the
  headers \<^verbatim>\<open>Server\<close> and \<^verbatim>\<open>Date\<close>, perhaps with the connection marked as to be closed.
\<close>

definition responded :: "platform \<Rightarrow> handler \<Rightarrow> handler \<Rightarrow> bool" where
  "responded P h h' =
     (\<exists>code message ls body.
        h' = respond h (standard_lines P code message @ ls) body
        \<or> h' = (respond h (standard_lines P code message @ ls) body)\<lparr>close_connection := True\<rparr>)"

text \<open>The head and the body of an error reply, as \<^verbatim>\<open>send_error\<close> builds them.\<close>

definition error_lines :: "platform \<Rightarrow> nat \<Rightarrow> string \<Rightarrow> string \<Rightarrow> bytes list" where
  "error_lines P code message explain =
     standard_lines P code message @ [header_line ''Connection'' ''close'']
     @ (if 200 \<le> code \<and> code \<noteq> 204 \<and> code \<noteq> 205 \<and> code \<noteq> 304
        then [header_line ''Content-Type'' error_content_type,
              header_line ''Content-Length''
                (str_nat (length (error_page P code message explain)))]
        else [])"

definition error_body :: "platform \<Rightarrow> handler \<Rightarrow> nat \<Rightarrow> string \<Rightarrow> string \<Rightarrow> bytes" where
  "error_body P h code message explain =
     (if 200 \<le> code \<and> code \<noteq> 204 \<and> code \<noteq> 205 \<and> code \<noteq> 304 \<and> command h \<noteq> Some ''HEAD''
      then error_page P code message explain else [])"

definition error_message :: "platform \<Rightarrow> nat \<Rightarrow> string option \<Rightarrow> string" where
  "error_message P code message =
     (case message of
        None \<Rightarrow> (case responses P code of Some r \<Rightarrow> fst r | None \<Rightarrow> ''???'')
      | Some m \<Rightarrow> m)"

definition error_explain :: "platform \<Rightarrow> nat \<Rightarrow> string option \<Rightarrow> string" where
  "error_explain P code explain =
     (case explain of
        None \<Rightarrow> (case responses P code of Some r \<Rightarrow> snd r | None \<Rightarrow> ''???'')
      | Some e \<Rightarrow> e)"

text \<open>
  Relations between the handler before and after a step: \<open>same_io\<close> when nothing was
  buffered or written and the directory is the same; \<open>sent_error\<close> after an error reply;
  \<open>parsed\<close> for the result of \<^verbatim>\<open>parse_request\<close>; \<open>handled\<close> for a whole request.
\<close>

definition same_io :: "handler \<Rightarrow> handler \<Rightarrow> bool" where
  "same_io h h0 =
     (wfile h0 = wfile h \<and> headers_buffer h0 = headers_buffer h \<and> directory h0 = directory h)"

definition sent_error :: "platform \<Rightarrow> handler \<Rightarrow> handler \<Rightarrow> bool" where
  "sent_error P h0 h1 =
     (\<exists>code message ls body.
        h1 = (respond h0 (standard_lines P code message @ ls) body)\<lparr>close_connection := True\<rparr>)"

definition parsed :: "platform \<Rightarrow> handler \<Rightarrow> handler \<times> bool \<Rightarrow> bool" where
  "parsed P h r =
     (case r of (h1, ok) \<Rightarrow>
        if ok then same_io h h1 \<and> command h1 \<noteq> None \<and> close_connection h1
        else (same_io h h1 \<and> request_version h1 = ''HTTP/0.9'' \<and> close_connection h1)
             \<or> (\<exists>h0. same_io h h0 \<and> sent_error P h0 h1))"

definition handled :: "platform \<Rightarrow> handler \<Rightarrow> handler \<Rightarrow> bool" where
  "handled P h h' =
     (close_connection h' \<and> directory h' = directory h \<and>
      (wfile h' = wfile h \<and> headers_buffer h' = headers_buffer h
       \<or> (\<exists>h0. same_io h h0 \<and> responded P h0 h')))"

text \<open>What the server records for a connection served with working directory \<open>d\<close>.\<close>

definition outcome :: "string \<Rightarrow> connection \<Rightarrow> event" where
  "outcome d c = (case run_handler d c of Inl e \<Rightarrow> Crashed e | Inr h \<Rightarrow> Served (wfile h))"




subsection \<open>A concrete platform, file system and requests\<close>

text \<open>
  CPython 3.11 on a small directory tree, for evaluating the handler on concrete requests:
  the entries of \<^verbatim>\<open>responses\<close> that the handler uses, the default error page,
  \<^verbatim>\<open>repr\<close> as it is for printable ASCII without quotes or backslashes, a fixed clock.
\<close>

definition example_responses :: "nat \<Rightarrow> (string \<times> string) option" where
  "example_responses = map_of
     [(100, (''Continue'', ''Request received, please continue'')),
      (200, (''OK'', ''Request fulfilled, document follows'')),
      (301, (''Moved Permanently'', ''Object moved permanently -- see URI list'')),
      (304, (''Not Modified'', ''Document has not changed since given time'')),
      (400, (''Bad Request'', ''Bad request syntax or unsupported method'')),
      (404, (''Not Found'', ''Nothing matches the given URI'')),
      (414, (''Request-URI Too Long'', ''URI is too long'')),
      (431, (''Request Header Fields Too Large'',
             ''The server is unwilling to process the request because its header fields are too large'')),
      (501, (''Not Implemented'', ''Server does not support this operation'')),
      (505, (''HTTP Version Not Supported'', ''Cannot fulfill request''))]"

definition html_escape :: "string \<Rightarrow> string" where
  "html_escape s =
     concat (map (\<lambda>c. if c = CHR ''&'' then ''&amp;''
                        else if c = CHR ''<'' then ''&lt;''
                        else if c = CHR ''>'' then ''&gt;'' else [c]) s)"

definition utf8 :: "string \<Rightarrow> bytes" where
  "utf8 s =
     concat (map (\<lambda>c. let n = of_char c :: nat
                        in if n < 128 then [c]
                           else [char_of (192 + n div 64), char_of (128 + n mod 64)]) s)"

definition example_error_page :: "nat \<Rightarrow> string \<Rightarrow> string \<Rightarrow> bytes" where
  "example_error_page code message explain =
     utf8 (''<!DOCTYPE HTML>'' @ [CHR 0x0A]
       @ ''<html lang='' @ [CHR 0x22] @ ''en'' @ [CHR 0x22] @ ''>'' @ [CHR 0x0A]
       @ ''    <head>'' @ [CHR 0x0A]
       @ ''        <meta charset='' @ [CHR 0x22] @ ''utf-8'' @ [CHR 0x22] @ ''>'' @ [CHR 0x0A]
       @ ''        <title>Error response</title>'' @ [CHR 0x0A]
       @ ''    </head>'' @ [CHR 0x0A]
       @ ''    <body>'' @ [CHR 0x0A]
       @ ''        <h1>Error response</h1>'' @ [CHR 0x0A]
       @ ''        <p>Error code: '' @ str_nat code @ ''</p>'' @ [CHR 0x0A]
       @ ''        <p>Message: '' @ html_escape message @ ''.</p>'' @ [CHR 0x0A]
       @ ''        <p>Error code explanation: '' @ str_nat code @ '' - '' @ html_escape explain
       @ ''.</p>'' @ [CHR 0x0A]
       @ ''    </body>'' @ [CHR 0x0A]
       @ ''</html>'' @ [CHR 0x0A])"

definition example_platform :: platform where
  "example_platform =
     \<lparr>responses = example_responses,
      sys_version = ''Python/3.11.10'',
      date_time_string = (\<lambda>t. ''Thu, 01 Jan 1970 00:00:00 GMT''),
      py_repr = (\<lambda>s. [CHR 0x27] @ s @ [CHR 0x27]),
      error_page = example_error_page,
      unquote_escapes = (\<lambda>s. s),
      urlsplit_path = (\<lambda>s. takeWhile (\<lambda>c. c \<noteq> CHR ''?'') s),
      redirect_url = (\<lambda>s. s @ ''/''),
      guess_type = (\<lambda>s. ''application/octet-stream''),
      fs_encoding = ''utf-8'',
      listing = (\<lambda>p rp entries. join_sep [CHR 0x0A] (map fst entries)),
      not_modified_since = (\<lambda>v t. False)\<rparr>"

text \<open>
  The served root \<^verbatim>\<open>/srv/www\<close> holds \<^verbatim>\<open>serve.py\<close> and \<^verbatim>\<open>etc/passwd\<close> (with the bytes
  \<^verbatim>\<open>inside\<close>); outside of it, \<^verbatim>\<open>/etc/passwd\<close> holds the bytes \<^verbatim>\<open>secret\<close>.
\<close>

definition example_files :: filesystem where
  "example_files =
     \<lparr>isdir = (\<lambda>p. p \<in> {''/srv/www'', ''/srv/www/'', ''/srv/www/etc'', ''/srv/www/etc/'',
                         ''/etc'', ''/etc/''}),
      isfile = (\<lambda>p. p \<in> {''/srv/www/serve.py'', ''/srv/www/etc/passwd'', ''/etc/passwd''}),
      open_rb = (\<lambda>p. if p = ''/srv/www/etc/passwd'' then Some (''inside'', 0)
                      else if p = ''/srv/www/serve.py'' then Some (''#!/usr/bin/env python3'', 0)
                      else if p = ''/etc/passwd'' then Some (''secret'', 0)
                      else None),
      listdir = (\<lambda>p. if p \<in> {''/srv/www'', ''/srv/www/''}
                        then Some [(''serve.py'', False, False), (''etc'', True, False)]
                      else if p \<in> {''/srv/www/etc'', ''/srv/www/etc/''}
                        then Some [(''passwd'', False, False)]
                      else if p \<in> {''/etc'', ''/etc/''} then Some [(''passwd'', False, False)]
                      else None)\<rparr>"


definition example_request :: "string \<Rightarrow> request" where
  "example_request line = \<lparr>raw_requestline = line @ CRLF, header_lines = Headers []\<rparr>"

definition example_connection :: "string \<Rightarrow> connection" where
  "example_connection line =
     \<lparr>conn_platform = example_platform, conn_files = example_files,
      conn_requests = [example_request line]\<rparr>"

text \<open>The handler as \<^verbatim>\<open>parse_request\<close> leaves it for a request line of three words.\<close>

definition example_handler :: "string \<Rightarrow> string \<Rightarrow> string \<Rightarrow> handler" where
  "example_handler cmd p version =
     (new_handler ''/srv/www'')
       \<lparr>command := Some cmd, path := p, request_version := version,
        requestline := cmd @ '' '' @ p @ '' '' @ version\<rparr>"


definition example_process :: process where
  "example_process =
     \<lparr>argv = [''serve.py''], environ = [(''PORT'', ''9000'')], can_bind = (\<lambda>a. True),
      cwd = ''/home/user'', stdout = [], listener = None, events = []\<rparr>"

text \<open>A handler in whose buffer the base class has put a header with the name of one of the
  three.\<close>

definition duplicate_handler :: handler where
  "duplicate_handler =
     (example_handler ''GET'' ''/serve.py'' ''HTTP/1.0'')
       \<lparr>headers_buffer :=
          Some [status_line 200 ''OK'',
                header_line ''Access-Control-Allow-Origin'' ''https://example.org'']\<rparr>"
section \<open>Properties\<close>

subsection \<open>Sending a header\<close>

lemma lower_Connection: "lower ''Connection'' = ''connection''"
  by code_simp

lemma lower_close: "lower ''close'' = ''close''"
  by code_simp

lemma lower_length: "length (lower s) = length s"
  by (simp add: lower_def)

lemma not_connection: "length k \<noteq> 10 \<Longrightarrow> lower k \<noteq> ''connection''"
  using lower_length [of k] by auto

lemma buffer_append_eq: "buffer_append h l = h\<lparr>headers_buffer := Some (buffered h @ [l])\<rparr>"
  by (simp add: buffer_append_def buffered_def)

lemma buffered_update [simp]:
  "buffered (h\<lparr>headers_buffer := Some b\<rparr>) = b"
  "buffered (h\<lparr>close_connection := c\<rparr>) = buffered h"
  "buffered (h\<lparr>wfile := w\<rparr>) = buffered h"
  by (simp_all add: buffered_def)

lemma send_header_plain:
  "lower k \<noteq> ''connection'' \<Longrightarrow> send_header h k v = buffer_lines h [header_line k v]"
  by (simp add: send_header_def buffer_append_eq header_line_def buffer_lines_def)

lemma send_header_close:
  "send_header h ''Connection'' ''close'' =
     (buffer_lines h [header_line ''Connection'' ''close''])\<lparr>close_connection := True\<rparr>"
  by (simp add: send_header_def buffer_append_eq header_line_def lower_Connection lower_close
      buffer_lines_def)

lemma buffer_lines_fields [simp]:
  "request_version (buffer_lines h ls) = request_version h"
  "directory (buffer_lines h ls) = directory h"
  "command (buffer_lines h ls) = command h"
  "path (buffer_lines h ls) = path h"
  "headers (buffer_lines h ls) = headers h"
  "close_connection (buffer_lines h ls) = close_connection h"
  "wfile (buffer_lines h ls) = wfile h"
  by (simp_all add: buffer_lines_def)

lemma buffer_lines_twice [simp]:
  "buffer_lines (buffer_lines h ls) ms = buffer_lines h (ls @ ms)"
  by (simp add: buffer_lines_def)

lemma buffer_lines_close [simp]:
  "buffer_lines (h\<lparr>close_connection := c\<rparr>) ls = (buffer_lines h ls)\<lparr>close_connection := c\<rparr>"
  by (simp add: buffer_lines_def)

lemma cors_lines_eq:
  "cors_lines =
     [header_line ''Access-Control-Allow-Origin'' ''*'',
      header_line ''Access-Control-Allow-Methods'' ''GET, POST, OPTIONS'',
      header_line ''Access-Control-Allow-Headers'' ''Content-Type'']"
  by (simp add: cors_lines_def cors_headers_def)

lemma end_headers_eq:
  "end_headers h =
     Inr (if request_version h \<noteq> ''HTTP/0.9''
          then h\<lparr>headers_buffer := Some [],
                 wfile := wfile h @ concat (buffered h @ cors_lines @ [CRLF])\<rparr>
          else h)"
  by (simp add: end_headers_def send_header_plain not_connection base_end_headers_def
      flush_headers_def cors_lines_eq buffer_lines_def)

lemma send_response_only_eq:
  "send_response_only P h code message =
     buffer_lines h [status_line code (case message of None \<Rightarrow> phrase P code | Some m \<Rightarrow> m)]"
  by (simp add: send_response_only_def buffer_append_eq status_line_def phrase_def
      buffer_lines_def split: option.splits)

lemma send_response_eq:
  "send_response P h code message =
     buffer_lines h
       (standard_lines P code (case message of None \<Rightarrow> phrase P code | Some m \<Rightarrow> m))"
  by (simp add: send_response_def send_response_only_eq send_header_plain not_connection
      standard_lines_def)

lemma respond_fields [simp]:
  "request_version (respond h ls body) = request_version h"
  "directory (respond h ls body) = directory h"
  "command (respond h ls body) = command h"
  "path (respond h ls body) = path h"
  "headers (respond h ls body) = headers h"
  "close_connection (respond h ls body) = close_connection h"
  by (simp_all add: respond_def)

lemma end_headers_respond: "end_headers h = Inr (respond h [] [])"
  by (simp add: end_headers_eq respond_def)

lemma respond_close [simp]:
  "respond (h\<lparr>close_connection := c\<rparr>) ls body = (respond h ls body)\<lparr>close_connection := c\<rparr>"
  by (simp add: respond_def)

lemma respond_buffer_lines [simp]:
  "respond (buffer_lines h ls) ms body = respond h (ls @ ms) body"
  by (simp add: respond_def buffer_lines_def)

lemma respond_more_body:
  "(respond h ls body)\<lparr>wfile := wfile (respond h ls body) @ extra\<rparr> = respond h ls (body @ extra)"
  "(respond h ls body)\<lparr>close_connection := c, wfile := wfile (respond h ls body) @ extra\<rparr>
     = (respond h ls (body @ extra))\<lparr>close_connection := c\<rparr>"
  by (simp_all add: respond_def)

lemma do_OPTIONS_eq:
  "do_OPTIONS P h = Inr (respond h (standard_lines P 200 (phrase P 200)) [])"
  by (simp add: do_OPTIONS_def send_response_eq end_headers_respond)

lemma send_error_eq:
  "send_error P h code message explain =
     Inr ((respond h
             (error_lines P code (error_message P code message) (error_explain P code explain))
             (error_body P h code (error_message P code message)
                (error_explain P code explain)))
          \<lparr>close_connection := True\<rparr>)"
proof -
  obtain s l where r: "(case responses P code of Some r \<Rightarrow> r | None \<Rightarrow> (''???'', ''???'')) = (s, l)"
    by (cases "case responses P code of Some r \<Rightarrow> r | None \<Rightarrow> (''???'', ''???'')") auto
  have m: "(case message of None \<Rightarrow> s | Some m \<Rightarrow> m) = error_message P code message"
    using r by (auto simp: error_message_def split: option.splits)
  have e: "(case explain of None \<Rightarrow> l | Some e \<Rightarrow> e) = error_explain P code explain"
    using r by (auto simp: error_explain_def split: option.splits)
  show ?thesis
    unfolding send_error_def r
    by (simp add: m e send_response_eq send_header_close send_header_plain
        not_connection end_headers_respond error_lines_def error_body_def
        respond_more_body Let_def)
qed

subsection \<open>Parsing\<close>

lemma protocol_below_11: "str_ge protocol_version ''HTTP/1.1'' = False"
  by code_simp

lemma failed_send_error:
  "failed (send_error P h code message explain) =
     Inr ((respond h
             (error_lines P code (error_message P code message) (error_explain P code explain))
             (error_body P h code (error_message P code message)
                (error_explain P code explain)))
          \<lparr>close_connection := True\<rparr>, False)"
  by (simp add: failed_def send_error_eq)

lemma parse_request_headers_Headers:
  "parse_request_headers P h (Headers hs) =
     Inr (h\<lparr>headers := hs,
            close_connection :=
              (lower (header_get hs ''Connection'' []) = ''close'' \<or> close_connection h)\<rparr>,
          True)"
  by (simp add: parse_request_headers_def protocol_below_11 Let_def)

lemma sent_errorI:
  "h1 = (respond h0 (error_lines P code message explain) body)\<lparr>close_connection := True\<rparr>
   \<Longrightarrow> sent_error P h0 h1"
  unfolding sent_error_def error_lines_def by (metis append_assoc)

lemma same_io_simps [simp]:
  "same_io h h"
  "same_io h (h0\<lparr>command := c\<rparr>) = same_io h h0"
  "same_io h (h0\<lparr>path := p\<rparr>) = same_io h h0"
  "same_io h (h0\<lparr>request_version := v\<rparr>) = same_io h h0"
  "same_io h (h0\<lparr>requestline := l\<rparr>) = same_io h h0"
  "same_io h (h0\<lparr>headers := hs\<rparr>) = same_io h h0"
  "same_io h (h0\<lparr>close_connection := b\<rparr>) = same_io h h0"
  by (simp_all add: same_io_def)

lemma parse_request_headers_parsed:
  assumes "same_io h h0" "command h0 \<noteq> None" "close_connection h0"
  shows "\<exists>r. parse_request_headers P h0 hl = Inr r \<and> parsed P h r"
proof (cases hl)
  case (Headers hs)
  then show ?thesis
    using assms by (simp add: parse_request_headers_Headers parsed_def)
next
  case (LineTooLong err)
  then show ?thesis
    using assms
    by (auto simp add: parse_request_headers_def failed_send_error parsed_def
        intro!: exI[of _ h0] sent_errorI)
next
  case (TooManyHeaders err)
  then show ?thesis
    using assms
    by (auto simp add: parse_request_headers_def failed_send_error parsed_def
        intro!: exI[of _ h0] sent_errorI)
qed

lemma parse_request_words_parsed:
  assumes "same_io h h0" "close_connection h0"
  shows "\<exists>r. parse_request_words P h0 ws hl = Inr r \<and> parsed P h r"
proof (cases "2 \<le> length ws \<and> length ws \<le> 3")
  case False
  then show ?thesis
    using assms
    by (auto simp add: parse_request_words_def failed_send_error parsed_def
        intro!: exI[of _ h0] sent_errorI)
next
  case True
  show ?thesis
  proof (cases "length ws = 2 \<and> ws ! 0 \<noteq> ''GET''")
    case True
    then show ?thesis
      using assms \<open>2 \<le> length ws \<and> length ws \<le> 3\<close>
      by (auto simp add: parse_request_words_def failed_send_error parsed_def Let_def
          intro!: exI[of _ "h0\<lparr>close_connection := True\<rparr>"] sent_errorI)
  next
    case False
    define h1 where "h1 = (if length ws = 2 then h0\<lparr>close_connection := True\<rparr> else h0)"
    define p' where "p' = single_leading_slash (ws ! 1)"
    have eq: "parse_request_words P h0 ws hl =
                parse_request_headers P (h1\<lparr>command := Some (ws ! 0), path := p'\<rparr>) hl"
      using False \<open>2 \<le> length ws \<and> length ws \<le> 3\<close>
      by (auto simp add: parse_request_words_def Let_def h1_def p'_def)
    have "same_io h (h1\<lparr>command := Some (ws ! 0), path := p'\<rparr>)"
      "command (h1\<lparr>command := Some (ws ! 0), path := p'\<rparr>) \<noteq> None"
      "close_connection (h1\<lparr>command := Some (ws ! 0), path := p'\<rparr>)"
      using assms by (simp_all add: h1_def)
    from parse_request_headers_parsed [OF this] show ?thesis
      by (simp only: eq)
  qed
qed

lemma parse_request_parsed:
  "\<exists>r. parse_request P h req = Inr r \<and> parsed P h r"
proof -
  define line where "line = rstrip_chars [CHR 0x0D, CHR 0x0A] (raw_requestline req)"
  define h1 where "h1 = h\<lparr>command := None, request_version := default_request_version,
                 close_connection := True, requestline := line\<rparr>"
  have io: "same_io h h1" and cl: "close_connection h1"
    and v: "request_version h1 = ''HTTP/0.9''"
    by (simp_all add: h1_def default_request_version_def)
  show ?thesis
  proof (cases "split_ws line = []")
    case True
    then show ?thesis
      using io cl v
      by (simp add: parse_request_def Let_def line_def [symmetric] h1_def [symmetric] parsed_def)
  next
    case ne: False
    show ?thesis
    proof (cases "3 \<le> length (split_ws line)")
      case False
      then show ?thesis
        using ne parse_request_words_parsed [OF io cl]
        by (simp add: parse_request_def Let_def line_def [symmetric] h1_def [symmetric])
    next
      case True
      show ?thesis
      proof (cases "version_number (last (split_ws line))")
        case None
        then show ?thesis
          using ne True io
          by (auto simp add: parse_request_def Let_def line_def [symmetric] h1_def [symmetric]
              failed_send_error parsed_def intro!: exI[of _ h1] sent_errorI)
      next
        case (Some vn)
        show ?thesis
        proof (cases "tuple_ge vn (2, 0)")
          case True
          then show ?thesis
            using ne \<open>3 \<le> length (split_ws line)\<close> Some io
            by (auto simp add: parse_request_def Let_def line_def [symmetric] h1_def [symmetric]
                failed_send_error parsed_def protocol_below_11 intro!: exI[of _ h1] sent_errorI)
        next
          case False
          have "same_io h (h1\<lparr>request_version := last (split_ws line)\<rparr>)"
            "close_connection (h1\<lparr>request_version := last (split_ws line)\<rparr>)"
            using io cl by simp_all
          from parse_request_words_parsed [OF this]
          show ?thesis
            using ne \<open>3 \<le> length (split_ws line)\<close> Some False
            by (simp add: parse_request_def Let_def line_def [symmetric] h1_def [symmetric]
                protocol_below_11)
        qed
      qed
    qed
  qed
qed

subsection \<open>Serving files\<close>

lemma respondedI1:
  "h' = respond h (standard_lines P code message @ ls) body \<Longrightarrow> responded P h h'"
  "h' = respond h (standard_lines P code message) body \<Longrightarrow> responded P h h'"
  unfolding responded_def by (blast, metis append_Nil2)

lemma respondedI2:
  "h' = (respond h (error_lines P code message explain) body)\<lparr>close_connection := True\<rparr>
   \<Longrightarrow> responded P h h'"
  unfolding responded_def error_lines_def by (metis append_assoc)

lemma no_file_send_error:
  "no_file (send_error P h code message explain) =
     Inr ((respond h
             (error_lines P code (error_message P code message) (error_explain P code explain))
             (error_body P h code (error_message P code message)
                (error_explain P code explain)))
          \<lparr>close_connection := True\<rparr>, None)"
  by (simp add: no_file_def send_error_eq)

lemma no_file_Inr [simp]: "no_file (Inr h) = Inr (h, None)"
  by (simp add: no_file_def)

lemma with_file_Inr [simp]: "with_file f (Inr h) = Inr (h, Some f)"
  by (simp add: with_file_def)

lemma list_directory_eq:
  "list_directory P F h p =
     (case listdir F p of
        None \<Rightarrow>
          Inr ((respond h
                  (error_lines P 404 ''No permission to list directory'' (error_explain P 404 None))
                  (error_body P h 404 ''No permission to list directory''
                     (error_explain P 404 None)))
               \<lparr>close_connection := True\<rparr>, None)
      | Some names \<Rightarrow>
          Inr (respond h
                 (standard_lines P 200 (phrase P 200)
                  @ [header_line ''Content-type'' (''text/html; charset='' @ fs_encoding P),
                     header_line ''Content-Length''
                       (str_nat (length (listing P p (path h) names)))])
                 [],
               Some (listing P p (path h) names)))"
  by (simp add: list_directory_def no_file_send_error send_response_eq
      send_header_plain not_connection end_headers_respond error_message_def Let_def
      split: option.splits)

lemma send_file_head_eq:
  "send_file_head P F h p =
     (if endswith p ''/'' \<or> open_rb F p = None then
        Inr ((respond h
                (error_lines P 404 ''File not found'' (error_explain P 404 None))
                (error_body P h 404 ''File not found'' (error_explain P 404 None)))
             \<lparr>close_connection := True\<rparr>, None)
      else if header_find (headers h) ''If-Modified-Since'' \<noteq> None
              \<and> header_find (headers h) ''If-None-Match'' = None
              \<and> not_modified_since P
                   (header_get (headers h) ''If-Modified-Since'' []) (snd (the (open_rb F p)))
      then Inr (respond h (standard_lines P 304 (phrase P 304)) [], None)
      else
        Inr (respond h
               (standard_lines P 200 (phrase P 200)
                @ [header_line ''Content-type'' (guess_type P p),
                   header_line ''Content-Length''
                     (str_nat (length (fst (the (open_rb F p))))),
                   header_line ''Last-Modified''
                     (date_time_string P (Some (snd (the (open_rb F p)))))])
               [],
             Some (fst (the (open_rb F p)))))"
  by (auto simp add: send_file_head_def no_file_send_error
      send_response_eq send_header_plain not_connection end_headers_respond error_message_def
      Let_def split: option.splits)

lemma send_head_eq:
  "send_head P F h =
     (let p = translate_path P (directory h) (path h)
      in if isdir F p then
           (if \<not> endswith (urlsplit_path P (path h)) ''/'' then
              Inr (respond h
                     (standard_lines P 301 (phrase P 301)
                      @ [header_line ''Location'' (redirect_url P (path h)),
                         header_line ''Content-Length'' ''0''])
                     [],
                   None)
            else if isfile F (path_join p ''index.html'')
              then send_file_head P F h (path_join p ''index.html'')
            else if isfile F (path_join p ''index.htm'')
              then send_file_head P F h (path_join p ''index.htm'')
            else list_directory P F h p)
         else send_file_head P F h p)"
  by (simp add: send_head_def send_response_eq send_header_plain not_connection
      end_headers_respond Let_def)

lemma list_directory_responded:
  "\<exists>h' f. list_directory P F h p = Inr (h', f) \<and> responded P h h'"
  by (auto simp add: list_directory_eq split: option.splits intro: respondedI1 respondedI2)

lemma send_file_head_responded:
  "\<exists>h' f. send_file_head P F h p = Inr (h', f) \<and> responded P h h'"
  unfolding send_file_head_eq
  by (auto intro: respondedI1 respondedI2)

lemma send_head_responded:
  "\<exists>h' f. send_head P F h = Inr (h', f) \<and> responded P h h'"
  unfolding send_head_eq Let_def
  using list_directory_responded send_file_head_responded
  by (auto intro: respondedI1)

lemma responded_more_body:
  assumes "responded P h h'"
  shows "responded P h (h'\<lparr>wfile := wfile h' @ extra\<rparr>)"
proof -
  from assms obtain code message ls body where
    "h' = respond h (standard_lines P code message @ ls) body
     \<or> h' = (respond h (standard_lines P code message @ ls) body)\<lparr>close_connection := True\<rparr>"
    unfolding responded_def by blast
  then have "h'\<lparr>wfile := wfile h' @ extra\<rparr>
        = respond h (standard_lines P code message @ ls) (body @ extra)
      \<or> h'\<lparr>wfile := wfile h' @ extra\<rparr>
        = (respond h (standard_lines P code message @ ls) (body @ extra))
            \<lparr>close_connection := True\<rparr>"
    by (auto simp: respond_def)
  then show ?thesis
    unfolding responded_def by blast
qed

lemma do_GET_responded: "\<exists>h'. do_GET P F h = Inr h' \<and> responded P h h'"
proof -
  obtain h1 f where s: "send_head P F h = Inr (h1, f)" and r: "responded P h h1"
    using send_head_responded by blast
  show ?thesis
    using s r by (cases f) (simp_all add: do_GET_def responded_more_body)
qed

lemma do_HEAD_responded: "\<exists>h'. do_HEAD P F h = Inr h' \<and> responded P h h'"
proof -
  obtain h1 f where s: "send_head P F h = Inr (h1, f)" and r: "responded P h h1"
    using send_head_responded by blast
  show ?thesis
    using s r by (simp add: do_HEAD_def)
qed

lemma do_OPTIONS_responded: "\<exists>h'. do_OPTIONS P h = Inr h' \<and> responded P h h'"
  by (simp add: do_OPTIONS_eq respondedI1)

lemma send_error_responded: "\<exists>h'. send_error P h code message explain = Inr h' \<and> responded P h h'"
  by (simp add: send_error_eq respondedI2)

lemma responded_fields:
  assumes "responded P h h'"
  shows "request_version h' = request_version h" and "directory h' = directory h"
    and "close_connection h \<Longrightarrow> close_connection h'"
  using assms by (auto simp: responded_def)


lemma sent_error_responded: "sent_error P h0 h1 \<Longrightarrow> responded P h0 h1 \<and> close_connection h1"
  by (auto simp: sent_error_def responded_def)

subsection \<open>One request\<close>

lemma handle_one_request_handled:
  "\<exists>h'. handle_one_request P F h req = Inr h' \<and> handled P h h'"
proof (cases "65536 < length (raw_requestline req)")
  case True
  have "same_io h (h\<lparr>requestline := [], request_version := [], command := Some []\<rparr>)"
    by simp
  moreover obtain h' where "send_error P (h\<lparr>requestline := [], request_version := [], command := Some []\<rparr>) 414 None None = Inr h'"
    and "responded P (h\<lparr>requestline := [], request_version := [], command := Some []\<rparr>) h'"
    and "close_connection h'"
    by (simp add: send_error_eq respondedI2)
  ultimately show ?thesis
    using True responded_fields(2)
    by (fastforce simp add: handle_one_request_def handled_def same_io_def)
next
  case short: False
  show ?thesis
  proof (cases "raw_requestline req = []")
    case True
    then show ?thesis
      by (simp add: handle_one_request_def handled_def)
  next
    case False
    obtain h1 ok where p: "parse_request P h req = Inr (h1, ok)" and pd: "parsed P h (h1, ok)"
      using parse_request_parsed [of P h req] by auto
    show ?thesis
    proof (cases ok)
      case False
      from pd False have "(same_io h h1 \<and> request_version h1 = ''HTTP/0.9'' \<and> close_connection h1)
             \<or> (\<exists>h0. same_io h h0 \<and> sent_error P h0 h1)"
        by (simp add: parsed_def)
      then have "handled P h h1"
        using sent_error_responded responded_fields(2)
        by (fastforce simp add: handled_def same_io_def)
      then show ?thesis
        using short \<open>raw_requestline req \<noteq> []\<close> p False
        by (simp add: handle_one_request_def)
    next
      case True
      with pd have io: "same_io h h1" and c: "command h1 \<noteq> None" and cl: "close_connection h1"
        by (simp_all add: parsed_def)
      then obtain cmd where cmd: "command h1 = Some cmd" by auto
      have "\<exists>h'. (if cmd = ''GET'' then do_GET P F h1
                    else if cmd = ''HEAD'' then do_HEAD P F h1
                    else if cmd = ''OPTIONS'' then do_OPTIONS P h1
                    else send_error P h1 501
                           (Some (''Unsupported method ('' @ py_repr P cmd @ '')'')) None) = Inr h'
                 \<and> responded P h1 h'"
        using do_GET_responded do_HEAD_responded do_OPTIONS_responded send_error_responded
        by simp
      then obtain h' where
        m: "(if cmd = ''GET'' then do_GET P F h1
                    else if cmd = ''HEAD'' then do_HEAD P F h1
                    else if cmd = ''OPTIONS'' then do_OPTIONS P h1
                    else send_error P h1 501
                           (Some (''Unsupported method ('' @ py_repr P cmd @ '')'')) None) = Inr h'"
        and r: "responded P h1 h'" by blast
      have "handled P h h'"
        using io r cl responded_fields [OF r]
        by (auto simp add: handled_def same_io_def)
      then show ?thesis
        using short \<open>raw_requestline req \<noteq> []\<close> p True cmd m
        by (simp add: handle_one_request_def)
    qed
  qed
qed


subsection \<open>A request line of three words\<close>

lemma parse_request_three_words:
  assumes "split_ws (rstrip_chars [CHR 0x0D, CHR 0x0A] (raw_requestline req)) = [cmd, p, version]"
    and "version_number version = Some vn" and "\<not> tuple_ge vn (2, 0)"
    and "header_lines req = Headers hs"
  shows "parse_request P h req =
     Inr (h\<lparr>command := Some cmd,
            path := single_leading_slash p,
            request_version := version,
            requestline := rstrip_chars [CHR 0x0D, CHR 0x0A] (raw_requestline req),
            headers := hs,
            close_connection := True\<rparr>, True)"
  using assms
  by (simp add: parse_request_def parse_request_words_def parse_request_headers_Headers
      protocol_below_11 Let_def)


lemma handle_requests_first:
  "handle_requests P F h (r # rs) = handle_one_request P F h r"
proof -
  obtain h' where "handle_one_request P F h r = Inr h'" and "handled P h h'"
    using handle_one_request_handled by blast
  then show ?thesis
    by (simp add: handled_def)
qed

lemma run_handler_first:
  "conn_requests c = r # rs \<Longrightarrow>
   run_handler d c = handle_one_request (conn_platform c) (conn_files c) (new_handler d) r"
  by (simp add: run_handler_def handle_def handle_requests_first new_handler_def
      del: handle_requests.simps)

lemma example_line:
  "rstrip_chars [CHR 0x0D, CHR 0x0A] (raw_requestline (example_request l)) =
     rstrip_chars [CHR 0x0D, CHR 0x0A] l"
  by (simp add: example_request_def rstrip_chars_def CRLF_def)

lemma example_request_fields:
  "raw_requestline (example_request l) \<noteq> []"
  "length (raw_requestline (example_request l)) = length l + 2"
  "header_lines (example_request l) = Headers []"
  by (simp_all add: example_request_def CRLF_def)

lemma handle_one_request_three_words:
  assumes "length (raw_requestline req) \<le> 65536"
    and "split_ws (rstrip_chars [CHR 0x0D, CHR 0x0A] (raw_requestline req)) = [cmd, p, version]"
    and "version_number version = Some vn" and "\<not> tuple_ge vn (2, 0)"
    and "header_lines req = Headers hs"
    and "h1 = h\<lparr>command := Some cmd,
            path := single_leading_slash p,
            request_version := version,
            requestline := rstrip_chars [CHR 0x0D, CHR 0x0A] (raw_requestline req),
            headers := hs,
            close_connection := True\<rparr>"
  shows "handle_one_request P F h req =
           (if cmd = ''GET'' then do_GET P F h1
            else if cmd = ''HEAD'' then do_HEAD P F h1
            else if cmd = ''OPTIONS'' then do_OPTIONS P h1
            else send_error P h1 501
                   (Some (''Unsupported method ('' @ py_repr P cmd @ '')'')) None)"
proof -
  have "raw_requestline req \<noteq> []"
    using assms(2) by (auto simp: rstrip_chars_def split_ws_def)
  then show ?thesis
    using assms(1) parse_request_three_words [OF assms(2-5), of P h]
    by (simp add: handle_one_request_def assms(6))
qed




subsection \<open>Splitting and joining paths\<close>

lemma split_on_not_Nil [simp]: "split_on c xs \<noteq> []"
  by (induction xs) (auto split: list.splits)














subsection \<open>The file system outside of the root is not read\<close>







subsection \<open>The server\<close>

lemma finish_request_eq:
  "finish_request p c = p\<lparr>events := events p @ [outcome (cwd p) c]\<rparr>"
  by (simp add: finish_request_def outcome_def split: sum.splits)

lemma serve_forever_eq:
  "serve_forever p cs = p\<lparr>events := events p @ map (outcome (cwd p)) cs\<rparr>"
  unfolding serve_forever_def
proof (induction cs arbitrary: p)
  case Nil
  show ?case by simp
next
  case (Cons c cs)
  show ?case
    unfolding foldl_Cons Cons.IH by (simp add: finish_request_eq)
qed

lemma str_nat_PORT: "str_nat PORT = ''8000''"
  by (simp add: PORT_def str_nat.simps digit_char_def, code_simp)



lemma main_eq:
  "main script p cs =
     (if can_bind p ([], 8000) then
        Inr (p\<lparr>cwd := dirname script,
               listener := Some ([], 8000),
               stdout := stdout p
                 @ ''Server running at http://localhost:8000/'' @ [CHR 0x0A]
                 @ ''Test the modular page at: http://localhost:8000/node-guides/procurement-provisioning/index-modular.html''
                 @ [CHR 0x0A],
               events := events p
                 @ [Chdir (dirname script), Bind [] 8000,
                    Print ''Server running at http://localhost:8000/'',
                    Print ''Test the modular page at: http://localhost:8000/node-guides/procurement-provisioning/index-modular.html'']
                 @ map (outcome (dirname script)) cs\<rparr>)
      else Inl OSError)"
  by (simp add: main_def os_chdir_def TCPServer_def print_def serve_forever_eq str_nat_PORT
      Let_def)
    (simp add: PORT_def)

subsection \<open>The examples\<close>



lemma example_options_words:
  "split_ws (rstrip_chars [CHR 0x0D, CHR 0x0A]
      (raw_requestline (example_request ''OPTIONS /anything HTTP/1.1'')))
   = [''OPTIONS'', ''/anything'', ''HTTP/1.1'']"
  unfolding example_line by code_simp

lemma version_11: "version_number ''HTTP/1.1'' = Some (1, 1)"
  by code_simp

lemma example_options_09_words:
  "split_ws (rstrip_chars [CHR 0x0D, CHR 0x0A]
      (raw_requestline (example_request ''OPTIONS /anything HTTP/0.9'')))
   = [''OPTIONS'', ''/anything'', ''HTTP/0.9'']"
  unfolding example_line by code_simp

lemma version_09: "version_number ''HTTP/0.9'' = Some (0, 9)"
  by code_simp















lemma dirname_example: "dirname ''/srv/www/serve.py'' = ''/srv/www''"
  by code_simp

lemma main_example:
  "main ''/srv/www/serve.py'' example_process cs =
     Inr (example_process\<lparr>cwd := ''/srv/www'',
               listener := Some ([], 8000),
               stdout :=
                  ''Server running at http://localhost:8000/'' @ [CHR 0x0A]
                 @ ''Test the modular page at: http://localhost:8000/node-guides/procurement-provisioning/index-modular.html''
                 @ [CHR 0x0A],
               events :=
                  [Chdir ''/srv/www'', Bind [] 8000,
                    Print ''Server running at http://localhost:8000/'',
                    Print ''Test the modular page at: http://localhost:8000/node-guides/procurement-provisioning/index-modular.html'']
                 @ map (outcome ''/srv/www'') cs\<rparr>)"
  by (simp add: main_eq dirname_example) (simp add: example_process_def)


section \<open>The claims\<close>

subsection \<open>The hook \<^verbatim>\<open>end_headers\<close>\<close>

text \<open>
  C10, as amended. For every handler whose request version is not \<^verbatim>\<open>HTTP/0.9\<close>, the
  overridden \<^verbatim>\<open>end_headers\<close> only appends: the lines already buffered (the status line and
  the headers of the base class) are written unchanged, followed by exactly the three
  headers \<^verbatim>\<open>Access-Control-Allow-Origin\<close>, \<^verbatim>\<open>Access-Control-Allow-Methods\<close>,
  \<^verbatim>\<open>Access-Control-Allow-Headers\<close> in this order and by one blank line, the buffer is left
  empty (the base finalization ran once) and no other attribute changes; it never raises.
  For a request of version \<^verbatim>\<open>HTTP/0.9\<close> the hook adds and writes nothing.
\<close>

theorem end_headers_only_appends:
  "end_headers h =
     Inr (if request_version h \<noteq> ''HTTP/0.9''
          then h\<lparr>headers_buffer := Some [],
                 wfile := wfile h @ concat (buffered h @ cors_lines @ [CRLF])\<rparr>
          else h)"
  by (rule end_headers_eq)

text \<open>
  C10 as stated fails: on a handler that answers an \<^verbatim>\<open>HTTP/0.9\<close> request the hook adds no
  header; the handler, its empty buffer and its output are as before.
\<close>

theorem end_headers_http09_adds_nothing:
  "end_headers (example_handler ''GET'' ''/serve.py'' ''HTTP/0.9'')
     = Inr (example_handler ''GET'' ''/serve.py'' ''HTTP/0.9'')
   \<and> headers_buffer (example_handler ''GET'' ''/serve.py'' ''HTTP/0.9'') = None
   \<and> wfile (example_handler ''GET'' ''/serve.py'' ''HTTP/0.9'') = []"
  by (simp add: end_headers_eq example_handler_def new_handler_def)

text \<open>
  C3. The hook does not deduplicate: when the base class has buffered a header \<open>k: v\<close>
  whose name \<open>k\<close> is one of the three (a handler that answers \<^verbatim>\<open>HTTP/0.9\<close> buffers no
  header), the hook writes every buffered line, among them \<open>k: v\<close>, and after all of them
  its own three lines, among them \<open>k: v'\<close> with its own value.
\<close>

theorem no_deduplication:
  assumes "request_version h \<noteq> ''HTTP/0.9''"
    and "headers_buffer h = Some b"
    and "header_line k v \<in> set b"
    and "(k, v') \<in> set cors_headers"
  shows "\<exists>h' b1 b2 c1 c2.
           end_headers h = Inr h'
           \<and> wfile h' = wfile h @ concat (b @ cors_lines @ [CRLF])
           \<and> b = b1 @ header_line k v # b2
           \<and> cors_lines = c1 @ header_line k v' # c2"
proof -
  from assms(3) obtain b1 b2 where b: "b = b1 @ header_line k v # b2"
    by (auto simp: in_set_conv_decomp)
  from assms(4) have "header_line k v' \<in> set cors_lines"
    by (force simp: cors_lines_def)
  then obtain c1 c2 where c: "cors_lines = c1 @ header_line k v' # c2"
    by (auto simp: in_set_conv_decomp)
  have "buffered h = b"
    using assms(2) by (simp add: buffered_def)
  with assms(1) have "end_headers h =
      Inr (h\<lparr>headers_buffer := Some [], wfile := wfile h @ concat (b @ cors_lines @ [CRLF])\<rparr>)"
    by (simp add: end_headers_eq)
  with b c show ?thesis by auto
qed

theorem no_deduplication_witness:
  "request_version duplicate_handler \<noteq> ''HTTP/0.9''
   \<and> headers_buffer duplicate_handler =
       Some [status_line 200 ''OK'',
             header_line ''Access-Control-Allow-Origin'' ''https://example.org'']
   \<and> header_line ''Access-Control-Allow-Origin'' ''https://example.org''
       \<in> set [status_line 200 ''OK'',
               header_line ''Access-Control-Allow-Origin'' ''https://example.org'']
   \<and> (''Access-Control-Allow-Origin'', ''*'') \<in> set cors_headers
   \<and> (\<exists>h' b1 b2 c1 c2.
         end_headers duplicate_handler = Inr h'
         \<and> wfile h' = wfile duplicate_handler
               @ concat ([status_line 200 ''OK'',
                          header_line ''Access-Control-Allow-Origin'' ''https://example.org'']
                         @ cors_lines @ [CRLF])
         \<and> [status_line 200 ''OK'',
             header_line ''Access-Control-Allow-Origin'' ''https://example.org'']
             = b1 @ header_line ''Access-Control-Allow-Origin'' ''https://example.org'' # b2
         \<and> cors_lines = c1 @ header_line ''Access-Control-Allow-Origin'' ''*'' # c2)"
proof -
  have v: "request_version duplicate_handler \<noteq> ''HTTP/0.9''"
    by (simp add: duplicate_handler_def example_handler_def new_handler_def)
  have b: "headers_buffer duplicate_handler =
       Some [status_line 200 ''OK'',
             header_line ''Access-Control-Allow-Origin'' ''https://example.org'']"
    by (simp add: duplicate_handler_def)
  have m: "header_line ''Access-Control-Allow-Origin'' ''https://example.org''
       \<in> set [status_line 200 ''OK'',
               header_line ''Access-Control-Allow-Origin'' ''https://example.org'']"
    by simp
  have c: "(''Access-Control-Allow-Origin'', ''*'') \<in> set cors_headers"
    by (simp add: cors_headers_def)
  show ?thesis
    using v b m c no_deduplication [OF v b m c] by blast
qed

subsection \<open>\<^verbatim>\<open>OPTIONS\<close> requests\<close>

text \<open>
  C2, as amended. For every \<^verbatim>\<open>OPTIONS\<close> request that the parser accepts (a first line of at
  most 65536 bytes with the three words \<^verbatim>\<open>OPTIONS\<close>, a path and a version \<^verbatim>\<open>HTTP/x.y\<close>
  below 2.0, and a header section that parses) and whose version is not \<^verbatim>\<open>HTTP/0.9\<close>,
  whatever its path: the handler does not raise and writes the status line with code 200,
  the headers \<^verbatim>\<open>Server\<close> and \<^verbatim>\<open>Date\<close>, the three CORS headers and the blank line, and
  nothing after it (an empty body).
\<close>

theorem options_response:
  assumes "length (raw_requestline req) \<le> 65536"
    and "split_ws (rstrip_chars [CHR 0x0D, CHR 0x0A] (raw_requestline req))
           = [''OPTIONS'', p, version]"
    and "version_number version = Some vn" and "\<not> tuple_ge vn (2, 0)"
    and "version \<noteq> ''HTTP/0.9''"
    and "header_lines req = Headers hs"
    and "buffered h = []"
  shows "\<exists>h'. handle_one_request P F h req = Inr h'
           \<and> wfile h' = wfile h @ concat
                ([status_line 200 (phrase P 200),
                  header_line ''Server'' (version_string P),
                  header_line ''Date'' (date_time_string P None)]
                 @ cors_lines @ [CRLF])"
  using assms(5,7)
  by (simp add: handle_one_request_three_words [OF assms(1-4,6) refl] do_OPTIONS_eq
      respond_def standard_lines_def buffered_def)

theorem options_response_witness:
  "length (raw_requestline (example_request ''OPTIONS /anything HTTP/1.1'')) \<le> 65536
   \<and> split_ws (rstrip_chars [CHR 0x0D, CHR 0x0A]
        (raw_requestline (example_request ''OPTIONS /anything HTTP/1.1'')))
       = [''OPTIONS'', ''/anything'', ''HTTP/1.1'']
   \<and> version_number ''HTTP/1.1'' = Some (1, 1) \<and> \<not> tuple_ge (1, 1) (2, 0)
   \<and> ''HTTP/1.1'' \<noteq> ''HTTP/0.9''
   \<and> header_lines (example_request ''OPTIONS /anything HTTP/1.1'') = Headers []
   \<and> buffered (new_handler ''/srv/www'') = []
   \<and> (\<exists>h'. handle_one_request example_platform example_files (new_handler ''/srv/www'')
               (example_request ''OPTIONS /anything HTTP/1.1'') = Inr h'
         \<and> wfile h' = wfile (new_handler ''/srv/www'') @ concat
              ([status_line 200 (phrase example_platform 200),
                header_line ''Server'' (version_string example_platform),
                header_line ''Date'' (date_time_string example_platform None)]
               @ cors_lines @ [CRLF]))"
proof -
  have 1: "length (raw_requestline (example_request ''OPTIONS /anything HTTP/1.1'')) \<le> 65536"
    by (simp add: example_request_fields)
  have 4: "\<not> tuple_ge (1, 1) (2, 0)"
    by (simp add: tuple_ge_def)
  have 5: "''HTTP/1.1'' \<noteq> ''HTTP/0.9''"
    by simp
  have 6: "header_lines (example_request ''OPTIONS /anything HTTP/1.1'') = Headers []"
    by (simp add: example_request_fields)
  have 7: "buffered (new_handler ''/srv/www'') = []"
    by (simp add: buffered_def new_handler_def)
  show ?thesis
    using 1 example_options_words version_11 4 5 6 7
      options_response [OF 1 example_options_words version_11 4 5 6 7,
        of example_platform example_files]
    by blast
qed

text \<open>
  C2 as stated fails: to the request \<^verbatim>\<open>OPTIONS /anything HTTP/0.9\<close> the handler answers
  with no byte at all: no status line with 200 and no CORS header.
\<close>

theorem options_http09_counterexample:
  "outcome ''/srv/www'' (example_connection ''OPTIONS /anything HTTP/0.9'') = Served []"
proof -
  have "run_handler ''/srv/www'' (example_connection ''OPTIONS /anything HTTP/0.9'')
     = handle_one_request example_platform example_files (new_handler ''/srv/www'')
         (example_request ''OPTIONS /anything HTTP/0.9'')"
    by (simp add: run_handler_first example_connection_def)
  also have "\<dots> = do_OPTIONS example_platform
      ((new_handler ''/srv/www'')\<lparr>command := Some ''OPTIONS'', path := ''/anything'',
         request_version := ''HTTP/0.9'',
         requestline := rstrip_chars [CHR 0x0D, CHR 0x0A]
            (raw_requestline (example_request ''OPTIONS /anything HTTP/0.9'')),
         headers := [], close_connection := True\<rparr>)"
    by (subst handle_one_request_three_words [OF _ example_options_09_words version_09 _ _ refl])
      (simp_all add: example_request_fields tuple_ge_def startswith_def single_leading_slash_def)
  finally show ?thesis
    by (simp add: outcome_def do_OPTIONS_eq respond_def new_handler_def)
qed

subsection \<open>Every response\<close>




subsection \<open>Missing files\<close>




subsection \<open>Path traversal\<close>




subsection \<open>Startup\<close>



text \<open>
  C7. The listener is bound to the address \<^verbatim>\<open>("", 8000)\<close>, or the process ends with
  \<^verbatim>\<open>OSError\<close> when the operating system refuses that address; the command line and the
  environment of the process have no part in it: running the main block with any other
  command line and environment gives the same result, in which only these two differ.
\<close>

theorem listener_address_fixed:
  "map_sum id listener (main script p cs)
     = (if can_bind p ([], 8000) then Inr (Some ([], 8000)) else Inl OSError)
   \<and> main script (p\<lparr>argv := a, environ := e\<rparr>) cs
     = map_sum id (\<lambda>q. q\<lparr>argv := a, environ := e\<rparr>) (main script p cs)"
  by (simp add: main_eq)

text \<open>
  C9. When the main block gets its listener, it has written exactly two lines to standard
  output, \<^verbatim>\<open>Server running at http://localhost:8000/\<close> and the line with the test URL
  \<^verbatim>\<open>http://localhost:8000/node-guides/procurement-provisioning/index-modular.html\<close>, both
  before the first connection is served; serving writes nothing more to it.
\<close>

theorem startup_prints_two_lines:
  assumes "main script p cs = Inr p'"
  shows "stdout p' =
           stdout p
           @ ''Server running at http://localhost:8000/'' @ [CHR 0x0A]
           @ ''Test the modular page at: http://localhost:8000/node-guides/procurement-provisioning/index-modular.html''
           @ [CHR 0x0A]
         \<and> (\<exists>p0. main script p [] = Inr p0 \<and> stdout p0 = stdout p'
                \<and> p' = serve_forever p0 cs)"
  using assms
  by (auto simp add: main_eq serve_forever_eq split: if_splits)

theorem startup_prints_two_lines_witness:
  "\<exists>p'. main ''/srv/www/serve.py'' example_process
           [example_connection ''GET /etc/passwd HTTP/1.0''] = Inr p'
     \<and> stdout p' =
           stdout example_process
           @ ''Server running at http://localhost:8000/'' @ [CHR 0x0A]
           @ ''Test the modular page at: http://localhost:8000/node-guides/procurement-provisioning/index-modular.html''
           @ [CHR 0x0A]
     \<and> (\<exists>p0. main ''/srv/www/serve.py'' example_process [] = Inr p0 \<and> stdout p0 = stdout p'
            \<and> p' = serve_forever p0 [example_connection ''GET /etc/passwd HTTP/1.0''])"
proof -
  obtain p' where m: "main ''/srv/www/serve.py'' example_process
           [example_connection ''GET /etc/passwd HTTP/1.0''] = Inr p'"
    by (simp add: main_example)
  from startup_prints_two_lines [OF m] show ?thesis
    using m by auto
qed

subsection \<open>State between requests\<close>



end
